theory Spec2Isabelle
  imports Main "HOL-Library.Word"
begin

unbundle bit_operations_syntax

section \<open>Go values\<close>

text \<open>
  A Go \<^verbatim>\<open>string\<close> and a \<^verbatim>\<open>[]byte\<close> are both sequences of bytes, and the
  conversion \<^verbatim>\<open>[]byte(s)\<close> copies them unchanged. A \<^typ>\<open>char\<close> is one byte, so both are
  \<^typ>\<open>string\<close> here. \<^verbatim>\<open>time.Duration\<close> is an \<^verbatim>\<open>int64\<close> counting nanoseconds. Go's
  \<^verbatim>\<open>int\<close> only carries values handed over by the decoder or the transport and is never
  computed with, so it is \<^typ>\<open>int\<close>.
\<close>

type_synonym bytes = string

type_synonym Duration = "64 word"

definition Second :: Duration where
  "Second = 1000000000"

text \<open>
  \<^verbatim>\<open>time.Time\<close> is only stored and handed on by the package: an instant (seconds and
  nanoseconds since the Unix epoch) with the offset of its zone.
\<close>

datatype Time = Time (sec: int) (nsec: nat) (zone_offset: int)

text \<open>The zero \<^verbatim>\<open>time.Time\<close>: January 1 of year 1, 00:00:00 UTC.\<close>

definition zero_Time :: Time where
  "zero_Time = Time (- 62135596800) 0 0"

text \<open>
  A value held in an \<^verbatim>\<open>interface{}\<close> that came from, or goes to, \<^verbatim>\<open>encoding/json\<close>.
  Numbers keep their literal text. \<open>JNull\<close> is the nil interface.
\<close>

datatype json =
    JNull
  | JBool bool
  | JNumber string
  | JString string
  | JArray "json list"
  | JObject "(string \<times> json) list"

subsection \<open>Enumerations\<close>

text \<open>All four are named string types in the source: any string is a value of them.\<close>

type_synonym NetworkType = string
type_synonym TransactionType = string
type_synonym TransactionStatus = string
type_synonym AddressType = string

definition NetworkTypeERC20 :: NetworkType where "NetworkTypeERC20 = ''ERC20''"
definition NetworkTypeBEP20 :: NetworkType where "NetworkTypeBEP20 = ''BEP20''"
definition NetworkTypeTRC20 :: NetworkType where "NetworkTypeTRC20 = ''TRC20''"
definition NetworkTypePOLYGON :: NetworkType where "NetworkTypePOLYGON = ''POLYGON''"
definition NetworkTypeSOLANA :: NetworkType where "NetworkTypeSOLANA = ''SOLANA''"

definition TransactionTypeDeposit :: TransactionType where
  "TransactionTypeDeposit = ''deposit''"
definition TransactionTypeWithdrawal :: TransactionType where
  "TransactionTypeWithdrawal = ''withdrawal''"

definition TransactionStatusPending :: TransactionStatus where
  "TransactionStatusPending = ''PENDING''"
definition TransactionStatusProcessing :: TransactionStatus where
  "TransactionStatusProcessing = ''PROCESSING''"
definition TransactionStatusCompleted :: TransactionStatus where
  "TransactionStatusCompleted = ''COMPLETED''"
definition TransactionStatusFailed :: TransactionStatus where
  "TransactionStatusFailed = ''FAILED''"
definition TransactionStatusCancelled :: TransactionStatus where
  "TransactionStatusCancelled = ''CANCELLED''"

definition AddressTypeTemporary :: AddressType where
  "AddressTypeTemporary = ''TEMPORARY''"
definition AddressTypePermanent :: AddressType where
  "AddressTypePermanent = ''PERMANENT''"

subsection \<open>Structs\<close>

text \<open>
  Several structs share field names, so a field is written with its struct's name in front
  (\<open>WebhookPayload.ID\<close>) wherever the name alone would be ambiguous.
\<close>

record CreateDepositParams =
  NetworkType :: NetworkType
  ContractAddress :: string
  Amount :: string
  IPNUrl :: string
  UDF :: string
  Type :: AddressType

record CreateWithdrawalParams =
  NetworkType :: NetworkType
  ContractAddress :: string
  Address :: string
  Amount :: string
  IPNUrl :: string
  UDF :: string

record DepositResponse =
  ID :: string
  Address :: string
  ExpiresAt :: Time
  Amount :: string
  Status :: TransactionStatus

record WithdrawalResponse =
  ID :: string
  Status :: TransactionStatus
  Fee :: string

record Token =
  NetworkType :: NetworkType
  ContractAddress :: string
  Symbol :: string
  Name :: string
  Decimals :: int

record Transaction =
  ID :: string
  TransactionType :: TransactionType
  Status :: TransactionStatus
  Amount :: string
  CreatedAt :: Time
  UpdatedAt :: Time
  TxHash :: string
  NetworkType :: NetworkType
  ContractAddress :: string
  Address :: string
  Token :: Token

record TransactionStatusResponse =
  Address :: string
  TransactionType :: TransactionType
  Count :: int
  Transactions :: "Transaction list"

record Balance =
  Raw :: string
  Formatted :: string

record WalletBalanceResponse =
  Address :: string
  NetworkType :: NetworkType
  ContractAddress :: string
  Token :: Token
  Balance :: Balance

record WebhookPayload =
  ID :: string
  Type :: TransactionType
  Status :: TransactionStatus
  Address :: string
  NetworkType :: NetworkType
  Amount :: string
  UDF :: string
  TxHash :: string
  Timestamp :: Time

record APIError =
  Error :: string
  Message :: string
  Data :: json
  Code :: int

subsection \<open>Errors\<close>

text \<open>
  The dynamic types behind the \<^verbatim>\<open>error\<close> values of the package: the string error of
  \<^verbatim>\<open>errors.New\<close> and of \<^verbatim>\<open>fmt.Errorf\<close> without \<^verbatim>\<open>%w\<close>, the wrapping error of
  \<^verbatim>\<open>fmt.Errorf\<close> with \<^verbatim>\<open>%w\<close> (its message and the error it wraps), and \<^verbatim>\<open>*APIError\<close>.
  A nil \<^verbatim>\<open>error\<close> is \<open>None\<close> of the option type over these; a \<^verbatim>\<open>*APIError\<close> held
  in an \<^verbatim>\<open>error\<close> always points to a struct. The source gives \<^verbatim>\<open>APIError\<close> a field and
  a method of the same name \<^verbatim>\<open>Error\<close>; here the field is \<open>APIError.Error\<close> and the
  method is \<open>APIError_Error\<close>.
\<close>

datatype error =
    errorString string
  | wrapError string error
  | APIErr APIError

definition APIError_Error :: "APIError \<Rightarrow> string" where
  "APIError_Error e = ''API error: '' @ APIError.Error e @ '' - '' @ APIError.Message e"

fun error_Error :: "error \<Rightarrow> string" where
  "error_Error (errorString s) = s"
| "error_Error (wrapError s e) = s"
| "error_Error (APIErr e) = APIError_Error e"

text \<open>\<^verbatim>\<open>fmt.Errorf(prefix + "%w", err)\<close>.\<close>

definition Errorf_w :: "string \<Rightarrow> error \<Rightarrow> error" where
  "Errorf_w prefix err = wrapError (prefix @ error_Error err) err"

subsection \<open>HTTP\<close>

text \<open>
  A body to read from (\<^verbatim>\<open>io.Reader\<close>): the bytes it delivers and the error that ends
  them, \<open>None\<close> for a clean end of file. \<^verbatim>\<open>io.ReadAll\<close> returns exactly this pair.
\<close>

type_synonym Reader = "bytes \<times> error option"

definition io_ReadAll :: "Reader \<Rightarrow> bytes \<times> error option" where
  "io_ReadAll r = r"

text \<open>\<^verbatim>\<open>http.Header\<close> and \<^verbatim>\<open>url.Values\<close> are both \<^verbatim>\<open>map[string][]string\<close>.\<close>

type_synonym Header = "string \<rightharpoonup> string list"
type_synonym Values = "string \<rightharpoonup> string list"

datatype Context = Background | WithTimeout Context Duration

text \<open>
  Of \<^verbatim>\<open>url.URL\<close> the package writes \<^verbatim>\<open>RawQuery\<close>; \<^verbatim>\<open>IsAbs\<close> reads \<^verbatim>\<open>Scheme\<close>. The
  remaining components are gathered in \<open>Host\<close> and \<open>Path\<close>.
\<close>

record URL =
  Scheme :: string
  Host :: string
  Path :: string
  RawQuery :: string

definition IsAbs :: "URL \<Rightarrow> bool" where
  "IsAbs u = (Scheme u \<noteq> '''')"

text \<open>
  An \<^verbatim>\<open>http.Request\<close>. For a request that a server hands to a handler the body is never
  nil. An \<^verbatim>\<open>http.Client\<close> is its timeout and its transport, named by an opaque handle
  (\<open>None\<close> is the nil transport, which stands for the default one).
\<close>

record Request =
  Ctx :: Context
  Method :: string
  URL :: string
  Header :: Header
  Body :: Reader

record Response =
  StatusCode :: int
  Body :: Reader

record http_Client =
  Transport :: "string option"
  Timeout :: Duration

text \<open>The value passed as \<^verbatim>\<open>body interface{}\<close> to \<^verbatim>\<open>sendRequest\<close>.\<close>

datatype body_value =
    DepositBody CreateDepositParams
  | WithdrawalBody CreateWithdrawalParams

subsection \<open>The environment\<close>

text \<open>
  The package calls into Go's standard library and, through the HTTP client, the network.
  Neither is part of the repository. Every function of the package takes them as a record
  \<open>env\<close>, and the theorems hold for every such record.
  \<^item> \<open>hmac_SHA256 key message\<close>: the digest that \<^verbatim>\<open>hmac.New(sha256.New, key)\<close> yields
    after \<^verbatim>\<open>Write(message)\<close> and \<^verbatim>\<open>Sum(nil)\<close>.
  \<^item> \<open>CanonicalMIMEHeaderKey\<close>: the canonical form under which \<^verbatim>\<open>http.Header\<close> keeps a key.
  \<^item> \<open>json_Unmarshal_WebhookPayload\<close>, \<open>json_Decode_\<close>\<dots>: \<^verbatim>\<open>encoding/json\<close> decoding
    into a zero value of the struct.
  \<^item> \<open>json_Encode\<close>: \<^verbatim>\<open>json.NewEncoder(buf).Encode(body)\<close>, the bytes written to \<open>buf\<close>.
  \<^item> \<open>url_Parse\<close>, \<open>url_ResolveReference\<close>, \<open>url_Values_Encode\<close>, \<open>url_String\<close>:
    \<^verbatim>\<open>net/url\<close>.
  \<^item> \<open>http_NewRequestWithContext\<close>: \<^verbatim>\<open>net/http\<close>; the body is \<open>None\<close> for a nil reader.
  \<^item> \<open>http_Client_Do client sent req\<close>: what the gateway answers to \<open>req\<close> after the
    requests \<open>sent\<close>, or the transport's error.
\<close>

record env =
  hmac_SHA256 :: "bytes \<Rightarrow> bytes \<Rightarrow> bytes"
  CanonicalMIMEHeaderKey :: "string \<Rightarrow> string"
  json_Unmarshal_WebhookPayload :: "bytes \<Rightarrow> error + WebhookPayload"
  url_Parse :: "string \<Rightarrow> error + URL"
  url_ResolveReference :: "URL \<Rightarrow> URL \<Rightarrow> URL"
  url_Values_Encode :: "Values \<Rightarrow> string"
  url_String :: "URL \<Rightarrow> string"
  json_Encode :: "body_value \<Rightarrow> error + bytes"
  http_NewRequestWithContext ::
    "Context \<Rightarrow> string \<Rightarrow> string \<Rightarrow> bytes option \<Rightarrow> error + Request"
  http_Client_Do :: "http_Client \<Rightarrow> Request list \<Rightarrow> Request \<Rightarrow> error + Response"
  json_Decode_APIError :: "Reader \<Rightarrow> error + APIError"
  json_Decode_DepositResponse :: "Reader \<Rightarrow> error + DepositResponse"
  json_Decode_WithdrawalResponse :: "Reader \<Rightarrow> error + WithdrawalResponse"
  json_Decode_TransactionStatusResponse :: "Reader \<Rightarrow> error + TransactionStatusResponse"
  json_Decode_WalletBalanceResponse :: "Reader \<Rightarrow> error + WalletBalanceResponse"

text \<open>\<^verbatim>\<open>Header.Get\<close>: the first value kept under the canonical key, or the empty string.\<close>

definition Header_Get :: "env \<Rightarrow> Header \<Rightarrow> string \<Rightarrow> string" where
  "Header_Get E h key =
     (case h (CanonicalMIMEHeaderKey E key) of
        None \<Rightarrow> ''''
      | Some [] \<Rightarrow> ''''
      | Some (v # vs) \<Rightarrow> v)"

text \<open>\<^verbatim>\<open>Header.Set\<close>: the canonical key now holds exactly this value.\<close>

definition Header_Set :: "env \<Rightarrow> Header \<Rightarrow> string \<Rightarrow> string \<Rightarrow> Header" where
  "Header_Set E h key v = h(CanonicalMIMEHeaderKey E key \<mapsto> [v])"

text \<open>\<^verbatim>\<open>Values.Add\<close>: appends the value to those of the key.\<close>

definition Values_Add :: "Values \<Rightarrow> string \<Rightarrow> string \<Rightarrow> Values" where
  "Values_Add v key x = v(key \<mapsto> (case v key of None \<Rightarrow> [] | Some xs \<Rightarrow> xs) @ [x])"

subsection \<open>Hex encoding and MAC comparison\<close>

text \<open>
  \<^verbatim>\<open>hex.EncodeToString\<close>: two digits of the lower-case table per byte \<open>v\<close>, the one at
  index \<^verbatim>\<open>v >> 4\<close>, which is \<open>v div 16\<close>, and the one at index \<^verbatim>\<open>v & 0x0f\<close>, which is
  \<open>v mod 16\<close>.
\<close>

definition hextable :: string where
  "hextable = ''0123456789abcdef''"

fun hex_EncodeToString :: "bytes \<Rightarrow> string" where
  "hex_EncodeToString [] = []"
| "hex_EncodeToString (v # src) =
     hextable ! (of_char v div 16) # hextable ! (of_char v mod 16) # hex_EncodeToString src"

text \<open>
  \<^verbatim>\<open>hmac.Equal\<close> is \<^verbatim>\<open>subtle.ConstantTimeCompare(mac1, mac2) == 1\<close>: 0 for slices of
  different lengths; otherwise the differences of all bytes are collected with XOR and OR
  into one byte, and the result is 1 when that byte is 0.
\<close>

fun ConstantTimeCompare_loop :: "nat \<Rightarrow> bytes \<Rightarrow> bytes \<Rightarrow> nat" where
  "ConstantTimeCompare_loop v (x # xs) (y # ys) =
     ConstantTimeCompare_loop (v OR (of_char x XOR of_char y)) xs ys"
| "ConstantTimeCompare_loop v xs ys = v"

definition ConstantTimeCompare :: "bytes \<Rightarrow> bytes \<Rightarrow> int" where
  "ConstantTimeCompare x y =
     (if length x \<noteq> length y then 0
      else if ConstantTimeCompare_loop 0 x y = 0 then 1 else 0)"

definition hmac_Equal :: "bytes \<Rightarrow> bytes \<Rightarrow> bool" where
  "hmac_Equal mac1 mac2 = (ConstantTimeCompare mac1 mac2 = 1)"

section \<open>The webhook handler\<close>

record WebhookHandler =
  apiSecret :: string

definition NewWebhookHandler :: "string \<Rightarrow> WebhookHandler" where
  "NewWebhookHandler secret = \<lparr>apiSecret = secret\<rparr>"

definition VerifySignature :: "env \<Rightarrow> WebhookHandler \<Rightarrow> bytes \<Rightarrow> string \<Rightarrow> bool" where
  "VerifySignature E h payload signature =
     (let expectedSignature =
            hex_EncodeToString (hmac_SHA256 E (WebhookHandler.apiSecret h) payload)
      in hmac_Equal expectedSignature signature)"

text \<open>
  The specification speaks of flipping a single bit of the body or of the signature:
  \<open>flip_bit_at i j s\<close> is \<open>s\<close> with bit \<open>j\<close> of its byte \<open>i\<close> flipped.
\<close>

definition flip_byte :: "nat \<Rightarrow> char \<Rightarrow> char" where
  "flip_byte j c = char_of (flip_bit j (of_char c :: nat))"

definition flip_bit_at :: "nat \<Rightarrow> nat \<Rightarrow> bytes \<Rightarrow> bytes" where
  "flip_bit_at i j s = s[i := flip_byte j (s ! i)]"

text \<open>
  The pair \<^verbatim>\<open>(*WebhookPayload, error)\<close> that the two entry points return; \<open>None\<close> is nil.
\<close>

type_synonym webhook_result = "WebhookPayload option \<times> error option"

definition ProcessWebhook ::
  "env \<Rightarrow> WebhookHandler \<Rightarrow> bytes \<Rightarrow> string \<Rightarrow> webhook_result" where
  "ProcessWebhook E h body signature =
     (if \<not> VerifySignature E h body signature
      then (None, Some (errorString ''invalid webhook signature''))
      else (case json_Unmarshal_WebhookPayload E body of
              Inl err \<Rightarrow> (None, Some (Errorf_w ''failed to parse webhook payload: '' err))
            | Inr payload \<Rightarrow> (Some payload, None)))"

definition HandleRequest :: "env \<Rightarrow> WebhookHandler \<Rightarrow> Request \<Rightarrow> webhook_result" where
  "HandleRequest E h r =
     (let signature = Header_Get E (Request.Header r) ''x-sagapay-signature'' in
      if signature = '''' then (None, Some (errorString ''missing SagaPay signature in headers''))
      else (case io_ReadAll (Request.Body r) of
              (body, Some err) \<Rightarrow> (None, Some (Errorf_w ''failed to read request body: '' err))
            | (body, None) \<Rightarrow>
                (if \<not> VerifySignature E h body signature
                 then (None, Some (errorString ''invalid webhook signature''))
                 else (case json_Unmarshal_WebhookPayload E body of
                         Inl err \<Rightarrow>
                           (None, Some (Errorf_w ''failed to parse webhook payload: '' err))
                       | Inr payload \<Rightarrow> (Some payload, None)))))"

text \<open>
  The specification words the HTTP-bound form differently from the source: it reads the
  signature from the header, fails if it is absent, reads the whole body and delegates to
  \<^verbatim>\<open>processWebhook\<close>. \<open>handleIncoming\<close> follows those words, to be compared with
  \<open>HandleRequest\<close>, which repeats the steps of \<open>ProcessWebhook\<close> instead of calling it.
\<close>

definition handleIncoming :: "env \<Rightarrow> WebhookHandler \<Rightarrow> Request \<Rightarrow> webhook_result" where
  "handleIncoming E h r =
     (let signature = Header_Get E (Request.Header r) ''x-sagapay-signature'' in
      if signature = '''' then (None, Some (errorString ''missing SagaPay signature in headers''))
      else (case io_ReadAll (Request.Body r) of
              (body, Some err) \<Rightarrow> (None, Some (Errorf_w ''failed to read request body: '' err))
            | (body, None) \<Rightarrow> ProcessWebhook E h body signature))"

subsection \<open>Response helpers\<close>

text \<open>
  The \<^verbatim>\<open>http.ResponseWriter\<close> is an interface; what the helpers do to it is the sequence of
  calls they make on it. A writer is the list of calls made so far:
  \<^verbatim>\<open>w.Header().Set(key, value)\<close>, \<^verbatim>\<open>w.WriteHeader(code)\<close> and
  \<^verbatim>\<open>json.NewEncoder(w).Encode(m)\<close> for a Go map \<open>m\<close>.
\<close>

datatype rw_call =
    Set_Header string string
  | WriteHeader int
  | Encode "string \<rightharpoonup> json"

type_synonym ResponseWriter = "rw_call list"

definition StatusOK :: int where
  "StatusOK = 200"

definition SendSuccessResponse :: "ResponseWriter \<Rightarrow> ResponseWriter" where
  "SendSuccessResponse w =
     (let w1 = w @ [Set_Header ''Content-Type'' ''application/json''];
          w2 = w1 @ [WriteHeader StatusOK]
      in w2 @ [Encode [''received'' \<mapsto> JBool True]])"

text \<open>
  \<^verbatim>\<open>err.Error()\<close> is evaluated after \<^verbatim>\<open>WriteHeader\<close>, when the map for the encoder is
  built. On a nil \<^verbatim>\<open>error\<close> it panics; the second component of the result is then the
  panic, and \<open>None\<close> when the helper returns.
\<close>

definition SendErrorResponse ::
  "ResponseWriter \<Rightarrow> error option \<Rightarrow> ResponseWriter \<times> string option" where
  "SendErrorResponse w err =
     (let w1 = w @ [Set_Header ''Content-Type'' ''application/json''];
          w2 = w1 @ [WriteHeader StatusOK]
      in case err of
           None \<Rightarrow> (w2, Some ''invalid memory address or nil pointer dereference'')
         | Some e \<Rightarrow>
             (w2 @ [Encode [''received'' \<mapsto> JBool False, ''error'' \<mapsto> JString (error_Error e)]],
              None))"

section \<open>The API client\<close>

subsection \<open>Parameter validation\<close>

definition CreateDepositParams_Validate :: "CreateDepositParams \<Rightarrow> error option" where
  "CreateDepositParams_Validate p =
     (if CreateDepositParams.NetworkType p = '''' then Some (errorString ''networkType is required'')
      else if CreateDepositParams.ContractAddress p = ''''
        then Some (errorString ''contractAddress is required'')
      else if CreateDepositParams.Amount p = '''' then Some (errorString ''amount is required'')
      else if CreateDepositParams.IPNUrl p = '''' then Some (errorString ''ipnUrl is required'')
      else None)"

definition CreateWithdrawalParams_Validate :: "CreateWithdrawalParams \<Rightarrow> error option" where
  "CreateWithdrawalParams_Validate p =
     (if CreateWithdrawalParams.NetworkType p = ''''
        then Some (errorString ''networkType is required'')
      else if CreateWithdrawalParams.ContractAddress p = ''''
        then Some (errorString ''contractAddress is required'')
      else if CreateWithdrawalParams.Address p = '''' then Some (errorString ''address is required'')
      else if CreateWithdrawalParams.Amount p = '''' then Some (errorString ''amount is required'')
      else if CreateWithdrawalParams.IPNUrl p = '''' then Some (errorString ''ipnUrl is required'')
      else None)"

subsection \<open>Construction\<close>

definition DefaultBaseURL :: string where
  "DefaultBaseURL = ''https://api.sagapay.net''"

definition DefaultTimeout :: Duration where
  "DefaultTimeout = 30 * Second"

record Config =
  BaseURL :: string
  APIKey :: string
  APISecret :: string
  Timeout :: Duration
  HTTPClient :: "http_Client option"

record Client =
  client :: http_Client
  baseURL :: URL
  apiKey :: string
  apiSecret :: string

text \<open>The pair \<^verbatim>\<open>(*Client, error)\<close>. The comparison of the timeout with 0 is signed.\<close>

definition NewClient :: "env \<Rightarrow> Config \<Rightarrow> Client option \<times> error option" where
  "NewClient E config =
     (if APIKey config = '''' then (None, Some (errorString ''API key is required''))
      else if APISecret config = '''' then (None, Some (errorString ''API secret is required''))
      else
        (let baseURL = (if BaseURL config \<noteq> '''' then BaseURL config else DefaultBaseURL) in
         case url_Parse E baseURL of
           Inl err \<Rightarrow> (None, Some (Errorf_w ''invalid base URL: '' err))
         | Inr parsedURL \<Rightarrow>
             (let httpClient =
                    (case HTTPClient config of
                       None \<Rightarrow>
                         \<lparr>Transport = None,
                          Timeout = (if 0 < sint (Config.Timeout config)
                                     then Config.Timeout config else DefaultTimeout)\<rparr>
                     | Some hc \<Rightarrow> hc)
              in (Some \<lparr>client = httpClient, baseURL = parsedURL,
                        apiKey = APIKey config, apiSecret = APISecret config\<rparr>,
                  None))))"

subsection \<open>Sending a request\<close>

text \<open>The verb \<^verbatim>\<open>%d\<close> of \<^verbatim>\<open>fmt\<close>: the decimal digits, with a minus sign below zero.\<close>

fun nat_digits :: "nat \<Rightarrow> string" where
  "nat_digits n =
     (if n < 10 then [char_of (48 + n)]
      else nat_digits (n div 10) @ [char_of (48 + n mod 10)])"

declare nat_digits.simps [simp del]

definition Sprint_d :: "int \<Rightarrow> string" where
  "Sprint_d i = (if i < 0 then CHR ''-'' # nat_digits (nat (- i)) else nat_digits (nat i))"

definition zero_APIError :: APIError where
  "zero_APIError = \<lparr>Error = '''', Message = '''', Data = JNull, Code = 0\<rparr>"

text \<open>
  \<^verbatim>\<open>json.NewDecoder(resp.Body).Decode(&apiErr)\<close>. The field \<^verbatim>\<open>Code\<close> carries the tag
  \<^verbatim>\<open>json:"-"\<close>, which makes \<^verbatim>\<open>encoding/json\<close> skip it: of what the decoder finds, only
  \<^verbatim>\<open>Error\<close>, \<^verbatim>\<open>Message\<close> and \<^verbatim>\<open>Data\<close> reach the struct, and \<^verbatim>\<open>Code\<close> stays as it was.
\<close>

definition Decode_APIError :: "env \<Rightarrow> Reader \<Rightarrow> APIError \<Rightarrow> error + APIError" where
  "Decode_APIError E body apiErr =
     (case json_Decode_APIError E body of
        Inl err \<Rightarrow> Inl err
      | Inr d \<Rightarrow>
          Inr (apiErr\<lparr>Error := APIError.Error d, Message := APIError.Message d,
                      Data := APIError.Data d\<rparr>))"

text \<open>
  \<^verbatim>\<open>sendRequestWithQuery\<close> returns an \<^verbatim>\<open>error\<close> and stores the decoded response through
  the pointer \<open>v\<close>. Here \<open>v\<close> is the decoder for the pointer's type (\<open>None\<close> for a nil
  \<open>v\<close>), \<open>response\<close> is the variable it points to, and the result holds the error and the
  variable afterwards. The last argument is the list of requests handed to the HTTP client
  so far, returned with the request of this call appended once \<^verbatim>\<open>Do\<close> has been called.
  When decoding the response fails, the callers drop the variable; what the decoder may have
  left in it is not kept. Two blocks of the function's body are definitions of their own:
  \<open>set_request_headers\<close> is the block that sets the four headers, \<open>parse_response\<close> the
  block that parses the response, from the test of the status code to the end.
\<close>

type_synonym 'r send_result = "(error option \<times> 'r) \<times> Request list"

definition set_request_headers :: "env \<Rightarrow> Client \<Rightarrow> Request \<Rightarrow> Request" where
  "set_request_headers E c req =
     (let h1 = Header_Set E (Request.Header req) ''Content-Type'' ''application/json'';
          h2 = Header_Set E h1 ''Accept'' ''application/json'';
          h3 = Header_Set E h2 ''x-api-key'' (apiKey c);
          h4 = Header_Set E h3 ''x-api-secret'' (Client.apiSecret c)
      in req\<lparr>Request.Header := h4\<rparr>)"

definition parse_response ::
  "env \<Rightarrow> Response \<Rightarrow> (Reader \<Rightarrow> error + 'r) option \<Rightarrow> 'r \<Rightarrow> error option \<times> 'r" where
  "parse_response E resp v response =
     (if 400 \<le> StatusCode resp then
        (case Decode_APIError E (Response.Body resp) zero_APIError of
           Inl err \<Rightarrow>
             (Some (errorString (''HTTP error: '' @ Sprint_d (StatusCode resp)
                      @ '' - failed to parse error response'')), response)
         | Inr apiErr \<Rightarrow> (Some (APIErr apiErr), response))
      else
        (case v of
           None \<Rightarrow> (None, response)
         | Some dec \<Rightarrow>
             (case dec (Response.Body resp) of
                Inl err \<Rightarrow> (Some err, response)
              | Inr r \<Rightarrow> (None, r))))"

definition sendRequestWithQuery ::
  "env \<Rightarrow> Client \<Rightarrow> Context \<Rightarrow> string \<Rightarrow> string \<Rightarrow> Values option \<Rightarrow> body_value option
     \<Rightarrow> (Reader \<Rightarrow> error + 'r) option \<Rightarrow> 'r \<Rightarrow> Request list \<Rightarrow> 'r send_result" where
  "sendRequestWithQuery E c ctx method path query body v response sent =
     (case url_Parse E path of
        Inl err \<Rightarrow> ((Some err, response), sent)
      | Inr u0 \<Rightarrow>
          (let u1 = url_ResolveReference E (baseURL c) u0;
               u = (case query of
                      None \<Rightarrow> u1
                    | Some q \<Rightarrow> u1\<lparr>RawQuery := url_Values_Encode E q\<rparr>);
               encoded = (case body of
                            None \<Rightarrow> Inr None
                          | Some b \<Rightarrow>
                              (case json_Encode E b of
                                 Inl err \<Rightarrow> Inl err
                               | Inr bs \<Rightarrow> Inr (Some bs)))
           in case encoded of
                Inl err \<Rightarrow> ((Some err, response), sent)
              | Inr buf \<Rightarrow>
                  (case http_NewRequestWithContext E ctx method (url_String E u) buf of
                     Inl err \<Rightarrow> ((Some err, response), sent)
                   | Inr req0 \<Rightarrow>
                       (let req = set_request_headers E c req0 in
                        case http_Client_Do E (client c) sent req of
                          Inl err \<Rightarrow> ((Some err, response), sent @ [req])
                        | Inr resp \<Rightarrow> (parse_response E resp v response, sent @ [req])))))"

definition sendRequest ::
  "env \<Rightarrow> Client \<Rightarrow> Context \<Rightarrow> string \<Rightarrow> string \<Rightarrow> body_value option
     \<Rightarrow> (Reader \<Rightarrow> error + 'r) option \<Rightarrow> 'r \<Rightarrow> Request list \<Rightarrow> 'r send_result" where
  "sendRequest E c ctx method path body v response sent =
     sendRequestWithQuery E c ctx method path None body v response sent"

subsection \<open>The four operations\<close>

definition MethodGet :: string where "MethodGet = ''GET''"
definition MethodPost :: string where "MethodPost = ''POST''"

text \<open>The zero values of the response structs, as \<^verbatim>\<open>var response T\<close> declares them.\<close>

definition zero_DepositResponse :: DepositResponse where
  "zero_DepositResponse =
     \<lparr>DepositResponse.ID = '''', Address = '''', ExpiresAt = zero_Time, Amount = '''', Status = ''''\<rparr>"

definition zero_WithdrawalResponse :: WithdrawalResponse where
  "zero_WithdrawalResponse = \<lparr>WithdrawalResponse.ID = '''', Status = '''', Fee = ''''\<rparr>"

definition zero_TransactionStatusResponse :: TransactionStatusResponse where
  "zero_TransactionStatusResponse =
     \<lparr>TransactionStatusResponse.Address = '''', TransactionType = '''', Count = 0, Transactions = []\<rparr>"

definition zero_Token :: Token where
  "zero_Token =
     \<lparr>Token.NetworkType = '''', ContractAddress = '''', Symbol = '''', Name = '''', Decimals = 0\<rparr>"

definition zero_WalletBalanceResponse :: WalletBalanceResponse where
  "zero_WalletBalanceResponse =
     \<lparr>WalletBalanceResponse.Address = '''', NetworkType = '''', ContractAddress = '''',
      Token = zero_Token,
      Balance = \<lparr>Raw = '''', Formatted = ''''\<rparr>\<rparr>"

text \<open>
  Each operation returns the pair \<^verbatim>\<open>(*T, error)\<close> and, as above, the requests handed to
  the HTTP client. All four end alike, with \<^verbatim>\<open>return nil, err\<close> when the request failed
  and \<^verbatim>\<open>return &response, nil\<close> otherwise: that is \<open>finish\<close>.
\<close>

type_synonym 'r op_result = "('r option \<times> error option) \<times> Request list"

definition finish :: "'r send_result \<Rightarrow> 'r op_result" where
  "finish res =
     (case res of
        ((Some err, response), sent) \<Rightarrow> ((None, Some err), sent)
      | ((None, response), sent) \<Rightarrow> ((Some response, None), sent))"

definition CreateDeposit ::
  "env \<Rightarrow> Client \<Rightarrow> Context \<Rightarrow> CreateDepositParams \<Rightarrow> Request list
     \<Rightarrow> DepositResponse op_result" where
  "CreateDeposit E c ctx params sent =
     (let endpoint = ''/create-deposit'' in
      case CreateDepositParams_Validate params of
        Some err \<Rightarrow> ((None, Some err), sent)
      | None \<Rightarrow>
          finish (sendRequest E c ctx MethodPost endpoint (Some (DepositBody params))
                    (Some (json_Decode_DepositResponse E)) zero_DepositResponse sent))"

definition CreateWithdrawal ::
  "env \<Rightarrow> Client \<Rightarrow> Context \<Rightarrow> CreateWithdrawalParams \<Rightarrow> Request list
     \<Rightarrow> WithdrawalResponse op_result" where
  "CreateWithdrawal E c ctx params sent =
     (let endpoint = ''/create-withdrawal'' in
      case CreateWithdrawalParams_Validate params of
        Some err \<Rightarrow> ((None, Some err), sent)
      | None \<Rightarrow>
          finish (sendRequest E c ctx MethodPost endpoint (Some (WithdrawalBody params))
                    (Some (json_Decode_WithdrawalResponse E)) zero_WithdrawalResponse sent))"

definition CheckTransactionStatus ::
  "env \<Rightarrow> Client \<Rightarrow> Context \<Rightarrow> string \<Rightarrow> TransactionType \<Rightarrow> Request list
     \<Rightarrow> TransactionStatusResponse op_result" where
  "CheckTransactionStatus E c ctx address transactionType sent =
     (let endpoint = ''/check-transaction-status'' in
      if address = '''' then ((None, Some (errorString ''address is required'')), sent)
      else
        (let q1 = Values_Add Map.empty ''address'' address;
             queryParams = Values_Add q1 ''type'' transactionType
         in finish (sendRequestWithQuery E c ctx MethodGet endpoint (Some queryParams) None
                      (Some (json_Decode_TransactionStatusResponse E))
                      zero_TransactionStatusResponse sent)))"

definition FetchWalletBalance ::
  "env \<Rightarrow> Client \<Rightarrow> Context \<Rightarrow> string \<Rightarrow> NetworkType \<Rightarrow> string \<Rightarrow> Request list
     \<Rightarrow> WalletBalanceResponse op_result" where
  "FetchWalletBalance E c ctx address networkType contractAddress sent =
     (let endpoint = ''/fetch-wallet-balance'' in
      if address = '''' then ((None, Some (errorString ''address is required'')), sent)
      else
        (let q1 = Values_Add Map.empty ''address'' address;
             q2 = Values_Add q1 ''networkType'' networkType;
             queryParams = (if contractAddress \<noteq> ''''
                            then Values_Add q2 ''contractAddress'' contractAddress else q2)
         in finish (sendRequestWithQuery E c ctx MethodGet endpoint (Some queryParams) None
                      (Some (json_Decode_WalletBalanceResponse E))
                      zero_WalletBalanceResponse sent)))"

section \<open>A mock environment\<close>

text \<open>
  One concrete environment, on which the theorems below are run: a mock gateway in the
  manner of an \<^verbatim>\<open>httptest\<close> server, and stand-ins for the library calls that know just the
  documents the mock exchanges. None of the general theorems depends on it.
\<close>

text \<open>
  The stand-in for the keyed hash is not HMAC-SHA256: it returns the key followed by the
  message.
\<close>

definition mock_hmac :: "bytes \<Rightarrow> bytes \<Rightarrow> bytes" where
  "mock_hmac key message = key @ message"

text \<open>
  Canonical header keys, for keys made of letters, digits and hyphens: the first letter and
  every letter after a hyphen in upper case, the others in lower case.
\<close>

definition upper_ascii :: "char \<Rightarrow> char" where
  "upper_ascii c =
     (if 97 \<le> (of_char c :: nat) \<and> (of_char c :: nat) \<le> 122
      then char_of ((of_char c :: nat) - 32) else c)"

definition lower_ascii :: "char \<Rightarrow> char" where
  "lower_ascii c =
     (if 65 \<le> (of_char c :: nat) \<and> (of_char c :: nat) \<le> 90
      then char_of ((of_char c :: nat) + 32) else c)"

fun canonical_key :: "bool \<Rightarrow> string \<Rightarrow> string" where
  "canonical_key upper [] = []"
| "canonical_key upper (c # cs) =
     (if upper then upper_ascii c else lower_ascii c) # canonical_key (c = CHR ''-'') cs"

text \<open>The webhook of the specification's scenario, and the decoder that knows it.\<close>

definition mock_webhook_body :: bytes where
  \<open>mock_webhook_body =
     ''{"id":"t1","type":"deposit","status":"COMPLETED","address":"a","networkType":"ERC20","amount":"5","timestamp":"2025-01-01T00:00:00Z"}''\<close>

definition mock_payload :: WebhookPayload where
  "mock_payload =
     \<lparr>WebhookPayload.ID = ''t1'', Type = TransactionTypeDeposit, Status = TransactionStatusCompleted,
      Address = ''a'', NetworkType = NetworkTypeERC20, Amount = ''5'', UDF = '''',
      TxHash = '''', Timestamp = Time 1735689600 0 0\<rparr>"

definition mock_Unmarshal_WebhookPayload :: "bytes \<Rightarrow> error + WebhookPayload" where
  "mock_Unmarshal_WebhookPayload b =
     (if b = mock_webhook_body then Inr mock_payload
      else Inl (errorString ''invalid character''))"

text \<open>
  \<^verbatim>\<open>url.Parse\<close> on the two kinds of input the mock meets. The default base URL has a
  scheme and a host. A string of lower-case letters and hyphens, with or without one slash
  in front, has no control byte, no \<^verbatim>\<open>#\<close>, \<^verbatim>\<open>?\<close>, \<^verbatim>\<open>%\<close> or \<^verbatim>\<open>:\<close> and does not begin with
  \<^verbatim>\<open>//\<close>: \<^verbatim>\<open>url.Parse\<close> finds no scheme and no authority in it, and returns it as the path
  of a relative reference with a nil error (its documentation: the URL "may be relative (a
  path, without a host) or absolute (starting with a scheme)"). Other inputs are outside
  the mock, which reports an error for them.
\<close>

definition is_segment :: "string \<Rightarrow> bool" where
  "is_segment s =
     (s \<noteq> [] \<and> list_all (\<lambda>c. (97 \<le> (of_char c :: nat) \<and> (of_char c :: nat) \<le> 122)
                              \<or> c = CHR ''-'') s)"

definition mock_url_Parse :: "string \<Rightarrow> error + URL" where
  "mock_url_Parse s =
     (if s = ''https://api.sagapay.net''
      then Inr \<lparr>Scheme = ''https'', Host = ''api.sagapay.net'', Path = '''', RawQuery = ''''\<rparr>
      else if is_segment s \<or> (case s of [] \<Rightarrow> False | c # cs \<Rightarrow> c = CHR ''/'' \<and> is_segment cs)
      then Inr \<lparr>Scheme = '''', Host = '''', Path = s, RawQuery = ''''\<rparr>
      else Inl (errorString ''parse: input outside the mock''))"

text \<open>Resolving a reference that is a rooted path: the base's scheme and host, that path.\<close>

definition mock_ResolveReference :: "URL \<Rightarrow> URL \<Rightarrow> URL" where
  "mock_ResolveReference base ref =
     \<lparr>Scheme = Scheme base, Host = Host base, Path = Path ref, RawQuery = RawQuery ref\<rparr>"

text \<open>The query string of the keys the package uses, in sorted order, not escaped.\<close>

definition mock_pair :: "Values \<Rightarrow> string \<Rightarrow> string list" where
  "mock_pair v key = (case v key of Some (x # xs) \<Rightarrow> [key @ ''='' @ x] | _ \<Rightarrow> [])"

fun join_amp :: "string list \<Rightarrow> string" where
  "join_amp [] = []"
| "join_amp [x] = x"
| "join_amp (x # y # ys) = x @ ''&'' @ join_amp (y # ys)"

definition mock_Values_Encode :: "Values \<Rightarrow> string" where
  "mock_Values_Encode v =
     join_amp (mock_pair v ''address'' @ mock_pair v ''contractAddress''
               @ mock_pair v ''networkType'' @ mock_pair v ''type'')"

definition mock_url_String :: "URL \<Rightarrow> string" where
  "mock_url_String u =
     (if Scheme u = '''' then '''' else Scheme u @ ''://'') @ Host u @ Path u
     @ (if RawQuery u = '''' then '''' else ''?'' @ RawQuery u)"

text \<open>The request body is rendered without escaping, one member per required field.\<close>

definition mock_json_Encode :: "body_value \<Rightarrow> error + bytes" where
  \<open>mock_json_Encode b =
     (case b of
        DepositBody p \<Rightarrow>
          Inr (''{"networkType":"'' @ CreateDepositParams.NetworkType p
               @ ''","contractAddress":"'' @ CreateDepositParams.ContractAddress p
               @ ''","amount":"'' @ CreateDepositParams.Amount p
               @ ''","ipnUrl":"'' @ CreateDepositParams.IPNUrl p @ ''"}'')
      | WithdrawalBody p \<Rightarrow>
          Inr (''{"networkType":"'' @ CreateWithdrawalParams.NetworkType p
               @ ''","contractAddress":"'' @ CreateWithdrawalParams.ContractAddress p
               @ ''","address":"'' @ CreateWithdrawalParams.Address p
               @ ''","amount":"'' @ CreateWithdrawalParams.Amount p
               @ ''","ipnUrl":"'' @ CreateWithdrawalParams.IPNUrl p @ ''"}''))\<close>

definition mock_NewRequestWithContext ::
  "Context \<Rightarrow> string \<Rightarrow> string \<Rightarrow> bytes option \<Rightarrow> error + Request" where
  "mock_NewRequestWithContext ctx method url body =
     Inr \<lparr>Ctx = ctx, Method = method, URL = url, Header = Map.empty,
          Body = (case body of None \<Rightarrow> ('''', None) | Some b \<Rightarrow> (b, None))\<rparr>"

text \<open>
  The mock gateway. It knows the key \<^verbatim>\<open>k\<close> and answers any other with status 401 and a
  structured error; it answers the creation of a deposit with status 200 and a deposit, and
  everything else with status 404 and a body that is not JSON.
\<close>

definition mock_unauthorized_body :: bytes where
  \<open>mock_unauthorized_body = ''{"error":"unauthorized","message":"bad key"}''\<close>

definition mock_deposit_body :: bytes where
  \<open>mock_deposit_body =
     ''{"id":"d1","address":"bnb1","expiresAt":"2025-01-01T00:00:00Z","amount":"1.5","status":"PENDING"}''\<close>

definition mock_Do :: "http_Client \<Rightarrow> Request list \<Rightarrow> Request \<Rightarrow> error + Response" where
  "mock_Do hc sent req =
     (if Request.Header req ''X-Api-Key'' \<noteq> Some [''k'']
      then Inr \<lparr>StatusCode = 401, Body = (mock_unauthorized_body, None)\<rparr>
      else if Method req = ''POST'' \<and> Request.URL req = ''https://api.sagapay.net/create-deposit''
      then Inr \<lparr>StatusCode = 200, Body = (mock_deposit_body, None)\<rparr>
      else Inr \<lparr>StatusCode = 404, Body = (''404 page not found'', None)\<rparr>)"

definition mock_Decode_APIError :: "Reader \<Rightarrow> error + APIError" where
  "mock_Decode_APIError r =
     (if r = (mock_unauthorized_body, None)
      then Inr \<lparr>Error = ''unauthorized'', Message = ''bad key'', Data = JNull, Code = 0\<rparr>
      else Inl (errorString ''invalid character''))"

definition mock_Decode_DepositResponse :: "Reader \<Rightarrow> error + DepositResponse" where
  "mock_Decode_DepositResponse r =
     (if r = (mock_deposit_body, None)
      then Inr \<lparr>DepositResponse.ID = ''d1'', Address = ''bnb1'', ExpiresAt = Time 1735689600 0 0,
                Amount = ''1.5'', Status = TransactionStatusPending\<rparr>
      else Inl (errorString ''invalid character''))"

definition mock_env :: env where
  "mock_env =
     \<lparr>hmac_SHA256 = mock_hmac,
      CanonicalMIMEHeaderKey = canonical_key True,
      json_Unmarshal_WebhookPayload = mock_Unmarshal_WebhookPayload,
      url_Parse = mock_url_Parse,
      url_ResolveReference = mock_ResolveReference,
      url_Values_Encode = mock_Values_Encode,
      url_String = mock_url_String,
      json_Encode = mock_json_Encode,
      http_NewRequestWithContext = mock_NewRequestWithContext,
      http_Client_Do = mock_Do,
      json_Decode_APIError = mock_Decode_APIError,
      json_Decode_DepositResponse = mock_Decode_DepositResponse,
      json_Decode_WithdrawalResponse = (\<lambda>r. Inl (errorString ''invalid character'')),
      json_Decode_TransactionStatusResponse = (\<lambda>r. Inl (errorString ''invalid character'')),
      json_Decode_WalletBalanceResponse = (\<lambda>r. Inl (errorString ''invalid character''))\<rparr>"

text \<open>Webhook requests as the mock gateway sends them, without and with a signature.\<close>

definition unsigned_request :: Request where
  "unsigned_request =
     \<lparr>Ctx = Background, Method = ''POST'', URL = ''/webhook'', Header = Map.empty,
      Body = (mock_webhook_body, None)\<rparr>"

definition signed_request :: "string \<Rightarrow> Reader \<Rightarrow> Request" where
  "signed_request sig body =
     \<lparr>Ctx = Background, Method = ''POST'', URL = ''/webhook'',
      Header = [''X-Sagapay-Signature'' \<mapsto> [sig]], Body = body\<rparr>"

definition mock_signature :: string where
  "mock_signature = hex_EncodeToString (mock_hmac ''s2'' mock_webhook_body)"

text \<open>Configurations, the client built from them, and the deposit of the scenario.\<close>

definition mock_config :: "string \<Rightarrow> string \<Rightarrow> Config" where
  "mock_config base key =
     \<lparr>BaseURL = base, APIKey = key, APISecret = ''s'', Timeout = 0, HTTPClient = None\<rparr>"

definition mock_client :: "string \<Rightarrow> Client" where
  "mock_client key =
     \<lparr>client = \<lparr>Transport = None, Timeout = DefaultTimeout\<rparr>,
      baseURL = \<lparr>Scheme = ''https'', Host = ''api.sagapay.net'', Path = '''', RawQuery = ''''\<rparr>,
      apiKey = key, apiSecret = ''s''\<rparr>"

definition mock_deposit_params :: CreateDepositParams where
  "mock_deposit_params =
     \<lparr>CreateDepositParams.NetworkType = NetworkTypeBEP20, ContractAddress = ''0'',
      Amount = ''1.5'', IPNUrl = ''https://x/webhook'', UDF = '''', Type = ''''\<rparr>"

definition mock_deposit_request :: "string \<Rightarrow> Request" where
  \<open>mock_deposit_request key =
     \<lparr>Ctx = Background, Method = ''POST'', URL = ''https://api.sagapay.net/create-deposit'',
      Header = [''Content-Type'' \<mapsto> [''application/json''],
                ''Accept'' \<mapsto> [''application/json''],
                ''X-Api-Key'' \<mapsto> [key], ''X-Api-Secret'' \<mapsto> [''s'']],
      Body = (''{"networkType":"BEP20","contractAddress":"0","amount":"1.5","ipnUrl":"https://x/webhook"}'',
              None)\<rparr>\<close>

definition mock_withdrawal_params :: CreateWithdrawalParams where
  "mock_withdrawal_params =
     \<lparr>CreateWithdrawalParams.NetworkType = NetworkTypeERC20, ContractAddress = ''0xdAC'',
      Address = ''0x742d'', Amount = ''10.5'', IPNUrl = ''https://x/webhook'', UDF = ''''\<rparr>"

section \<open>Properties of the webhook handler\<close>

lemma xor_nat_eq_0_iff: "((a::nat) XOR b = 0) = (a = b)"
  by (metis xor_self_eq xor.right_neutral xor.assoc)

lemma ConstantTimeCompare_loop_zero:
  "length xs = length ys \<Longrightarrow>
   (ConstantTimeCompare_loop v xs ys = 0) = (v = 0 \<and> xs = ys)"
proof (induction v xs ys rule: ConstantTimeCompare_loop.induct)
  case (1 v x xs y ys)
  then show ?case by (auto simp: or_eq_0_iff xor_nat_eq_0_iff)
qed auto

text \<open>The constant-time comparison decides equality of the two byte strings.\<close>

lemma hmac_Equal_iff: "hmac_Equal mac1 mac2 = (mac1 = mac2)"
  using ConstantTimeCompare_loop_zero [of mac1 mac2 0]
  by (auto simp: hmac_Equal_def ConstantTimeCompare_def)

lemma length_hex_EncodeToString: "length (hex_EncodeToString src) = 2 * length src"
  by (induction src) auto

lemma of_char_nat_less: "(of_char c :: nat) < 256"
  by (cases c) simp

lemma hextable_nth: "n < 16 \<Longrightarrow> hextable ! n \<in> set ''0123456789abcdef''"
proof -
  assume "n < 16"
  then have "n \<in> set [0..<16]" by simp
  then show ?thesis unfolding hextable_def
    by (simp add: upt_rec numeral_eq_Suc) auto
qed

text \<open>The encoding uses the digits and the lower-case letters a to f only.\<close>

lemma hex_EncodeToString_lower:
  "set (hex_EncodeToString src) \<subseteq> set ''0123456789abcdef''"
proof (induction src)
  case Nil
  then show ?case by simp
next
  case (Cons v src)
  have "(of_char v :: nat) div 16 < 16"
    using of_char_nat_less [of v] by arith
  moreover have "(of_char v :: nat) mod 16 < 16" by simp
  ultimately show ?case
    using Cons hextable_nth by simp
qed

text \<open>
  \<^verbatim>\<open>VerifySignature\<close> accepts exactly one signature for a body: the lower-case hex encoding
  of the keyed hash of the body under the handler's secret. Any other string, and so any
  string that differs from it in one bit, is rejected.
\<close>

lemma VerifySignature_iff:
  "VerifySignature E h body sig =
     (sig = hex_EncodeToString (hmac_SHA256 E (WebhookHandler.apiSecret h) body))"
  by (auto simp: VerifySignature_def hmac_Equal_iff)

lemma VerifySignature_unique:
  "VerifySignature E h body sig \<Longrightarrow> sig' \<noteq> sig \<Longrightarrow> \<not> VerifySignature E h body sig'"
  by (simp add: VerifySignature_iff)

text \<open>The encoding is injective: distinct digests have distinct encodings.\<close>

lemma hextable_distinct: "distinct hextable"
  by (simp add: hextable_def)

lemma hextable_inj:
  assumes "a < 16" and "b < 16" and "hextable ! a = hextable ! b"
  shows "a = b"
proof -
  have "length hextable = 16" by (simp add: hextable_def)
  with assms show ?thesis
    using nth_eq_iff_index_eq [OF hextable_distinct, of a b] by simp
qed

lemma hex_byte_inj:
  assumes "hextable ! (of_char x div 16) = hextable ! (of_char y div 16)"
    and "hextable ! (of_char x mod 16) = hextable ! (of_char y mod 16)"
  shows "x = y"
proof -
  have x: "(of_char x :: nat) div 16 < 16" using of_char_nat_less [of x] by arith
  have y: "(of_char y :: nat) div 16 < 16" using of_char_nat_less [of y] by arith
  have d: "(of_char x :: nat) div 16 = of_char y div 16"
    using hextable_inj [OF x y] assms(1) by simp
  have m: "(of_char x :: nat) mod 16 = of_char y mod 16"
    using hextable_inj [of "of_char x mod 16" "of_char y mod 16"] assms(2) by simp
  have "(of_char x :: nat) = of_char y"
    using d m by (metis div_mult_mod_eq)
  then show ?thesis by simp
qed

lemma hex_EncodeToString_inj:
  "hex_EncodeToString xs = hex_EncodeToString ys \<Longrightarrow> xs = ys"
proof (induction xs arbitrary: ys)
  case Nil
  then show ?case by (cases ys) auto
next
  case (Cons x xs)
  then show ?case
    by (cases ys) (auto dest: hex_byte_inj)
qed

text \<open>
  Whether a changed body is rejected under the signature of the original is decided by the
  keyed hash alone: it is rejected exactly when the hash of the changed body differs.
\<close>

lemma VerifySignature_other_body:
  "VerifySignature E h body sig \<Longrightarrow>
   VerifySignature E h body' sig =
     (hmac_SHA256 E (WebhookHandler.apiSecret h) body' =
      hmac_SHA256 E (WebhookHandler.apiSecret h) body)"
  by (auto simp: VerifySignature_iff dest: hex_EncodeToString_inj)

text \<open>
  Flipping one bit of an accepted signature makes it rejected. Flipping one bit of the body
  makes the signature rejected exactly when the keyed hash of the body changes.
\<close>

lemma flip_byte_neq:
  assumes "j < 8"
  shows "flip_byte j c \<noteq> c"
proof
  let ?n = "of_char c :: nat"
  assume "flip_byte j c = c"
  then have "of_char (flip_byte j c) = ?n" by simp
  then have "flip_bit j ?n mod 256 = ?n"
    by (simp add: flip_byte_def of_char_of)
  then have "take_bit 8 (flip_bit j ?n) = ?n"
    by (simp add: take_bit_eq_mod)
  moreover have "take_bit 8 (flip_bit j ?n) = flip_bit j (take_bit 8 ?n)"
    using assms by (simp add: take_bit_flip_bit_eq)
  moreover have "take_bit 8 ?n = ?n"
    using of_char_nat_less [of c] by (simp add: take_bit_eq_mod)
  ultimately have "flip_bit j ?n = ?n" by simp
  then have "bit (flip_bit j ?n) j = bit ?n j" by simp
  then show False by (simp add: bit_flip_bit_iff)
qed

lemma flip_bit_at_neq:
  assumes "i < length s" and "j < 8"
  shows "flip_bit_at i j s \<noteq> s"
proof
  assume "flip_bit_at i j s = s"
  then have "flip_bit_at i j s ! i = s ! i" by simp
  with assms(1) have "flip_byte j (s ! i) = s ! i"
    by (simp add: flip_bit_at_def)
  with flip_byte_neq [OF assms(2)] show False by blast
qed

lemma VerifySignature_signature_bit_flip:
  assumes "VerifySignature E h body sig" and "i < length sig" and "j < 8"
  shows "\<not> VerifySignature E h body (flip_bit_at i j sig)"
  using assms flip_bit_at_neq [of i sig j] by (simp add: VerifySignature_iff)

lemma VerifySignature_body_bit_flip:
  assumes "VerifySignature E h body sig"
  shows "VerifySignature E h (flip_bit_at i j body) sig =
     (hmac_SHA256 E (WebhookHandler.apiSecret h) (flip_bit_at i j body) =
      hmac_SHA256 E (WebhookHandler.apiSecret h) body)"
  using assms by (rule VerifySignature_other_body)

lemma canonical_signature_key:
  "canonical_key True ''x-sagapay-signature'' = ''X-Sagapay-Signature''"
  by code_simp

lemma mock_env_simps:
  "hmac_SHA256 mock_env = mock_hmac"
  "CanonicalMIMEHeaderKey mock_env = canonical_key True"
  "json_Unmarshal_WebhookPayload mock_env = mock_Unmarshal_WebhookPayload"
  "url_Parse mock_env = mock_url_Parse"
  by (simp_all add: mock_env_def)

lemma mock_signature_nonempty: "mock_signature \<noteq> ''''"
  by (simp add: mock_signature_def mock_hmac_def)

lemma Header_Get_signed:
  "Header_Get mock_env (Request.Header (signed_request sig body)) ''x-sagapay-signature'' = sig"
  by (simp add: Header_Get_def signed_request_def mock_env_simps canonical_signature_key
      del: canonical_key.simps)

lemma Header_Get_empty_iff:
  "(Header_Get E hs key = '''') =
     (hs (CanonicalMIMEHeaderKey E key) = None \<or> hs (CanonicalMIMEHeaderKey E key) = Some []
      \<or> (\<exists>vs. hs (CanonicalMIMEHeaderKey E key) = Some ('''' # vs)))"
  by (auto simp: Header_Get_def split: option.splits list.splits)

text \<open>
  C2. When \<^verbatim>\<open>VerifySignature\<close> rejects the body and signature, \<^verbatim>\<open>ProcessWebhook\<close> returns a
  nil payload and the signature error whatever the JSON decoder would make of the body, so
  the body is not parsed. In every case exactly one of payload and error is nil: a payload
  and an error never come together.
\<close>

theorem ProcessWebhook_verify_then_parse:
  "(\<not> VerifySignature E h body sig \<longrightarrow>
      (\<forall>u. ProcessWebhook (E\<lparr>json_Unmarshal_WebhookPayload := u\<rparr>) h body sig =
             (None, Some (errorString ''invalid webhook signature''))))
   \<and> ((fst (ProcessWebhook E h body sig) = None) = (snd (ProcessWebhook E h body sig) \<noteq> None))"
  by (auto simp: ProcessWebhook_def VerifySignature_def split: sum.splits)

theorem ProcessWebhook_verify_then_parse_witness:
  "\<not> VerifySignature mock_env (NewWebhookHandler ''s2'') mock_webhook_body ''deadbeef''
   \<and> ProcessWebhook mock_env (NewWebhookHandler ''s2'') mock_webhook_body ''deadbeef'' =
       (None, Some (errorString ''invalid webhook signature''))"
proof -
  have h: "\<not> VerifySignature mock_env (NewWebhookHandler ''s2'') mock_webhook_body ''deadbeef''"
    by (simp add: VerifySignature_iff mock_env_simps mock_hmac_def NewWebhookHandler_def
        hextable_def)
  from ProcessWebhook_verify_then_parse
         [of mock_env "NewWebhookHandler ''s2''" mock_webhook_body "''deadbeef''"] h
  have "ProcessWebhook (mock_env\<lparr>json_Unmarshal_WebhookPayload :=
            json_Unmarshal_WebhookPayload mock_env\<rparr>)
          (NewWebhookHandler ''s2'') mock_webhook_body ''deadbeef'' =
        (None, Some (errorString ''invalid webhook signature''))"
    by blast
  with h show ?thesis by simp
qed

text \<open>The source's form and the specification's delegating form agree on every request.\<close>

lemma HandleRequest_delegates: "HandleRequest E h r = handleIncoming E h r"
  by (simp add: HandleRequest_def handleIncoming_def ProcessWebhook_def Let_def
      split: prod.splits option.splits)

text \<open>
  C9. For a request whose signature header holds a non-empty value and whose body is read
  to its end without an error, \<^verbatim>\<open>HandleRequest\<close> returns what \<^verbatim>\<open>ProcessWebhook\<close> returns
  for the bytes of the body and the value of the header.
\<close>

theorem HandleRequest_eq_ProcessWebhook:
  assumes "Header_Get E (Request.Header r) ''x-sagapay-signature'' = sig"
    and "sig \<noteq> ''''"
    and "io_ReadAll (Request.Body r) = (body, None)"
  shows "HandleRequest E h r = ProcessWebhook E h body sig"
  using assms by (simp add: HandleRequest_def ProcessWebhook_def)

theorem HandleRequest_eq_ProcessWebhook_witness:
  "Header_Get mock_env (Request.Header (signed_request mock_signature (mock_webhook_body, None)))
       ''x-sagapay-signature'' = mock_signature
   \<and> mock_signature \<noteq> ''''
   \<and> io_ReadAll (Request.Body (signed_request mock_signature (mock_webhook_body, None))) =
       (mock_webhook_body, None)
   \<and> HandleRequest mock_env (NewWebhookHandler ''s2'')
        (signed_request mock_signature (mock_webhook_body, None)) =
       ProcessWebhook mock_env (NewWebhookHandler ''s2'') mock_webhook_body mock_signature
   \<and> ProcessWebhook mock_env (NewWebhookHandler ''s2'') mock_webhook_body mock_signature =
       (Some mock_payload, None)"
proof -
  let ?r = "signed_request mock_signature (mock_webhook_body, None)"
  have a: "Header_Get mock_env (Request.Header ?r) ''x-sagapay-signature'' = mock_signature"
    by (rule Header_Get_signed)
  have b: "io_ReadAll (Request.Body ?r) = (mock_webhook_body, None)"
    by (simp add: io_ReadAll_def signed_request_def)
  have c: "ProcessWebhook mock_env (NewWebhookHandler ''s2'') mock_webhook_body mock_signature =
       (Some mock_payload, None)"
    by (simp add: ProcessWebhook_def VerifySignature_iff mock_env_simps NewWebhookHandler_def
        mock_signature_def mock_Unmarshal_WebhookPayload_def)
  from HandleRequest_eq_ProcessWebhook [OF a mock_signature_nonempty b] a b c
    mock_signature_nonempty
  show ?thesis by simp
qed

text \<open>
  C7. The signature header counts as missing when the request holds no value under its
  canonical key, or holds the empty string. Then \<^verbatim>\<open>HandleRequest\<close> returns a nil payload
  and the missing-signature error, whatever the body is and whatever the keyed hash and the
  JSON decoder would compute: the body is neither verified nor parsed. With a non-empty
  header it reads the whole body: a read error is returned with a nil payload; a body that
  fails verification gives a nil payload and the signature error, whatever the decoder would
  make of it; only a verified body is decoded, and the payload is returned when decoding
  succeeds.
\<close>

theorem HandleRequest_signature_header:
  "((Header_Get E (Request.Header r) ''x-sagapay-signature'' = '''') =
      (Request.Header r (CanonicalMIMEHeaderKey E ''x-sagapay-signature'') = None
       \<or> Request.Header r (CanonicalMIMEHeaderKey E ''x-sagapay-signature'') = Some []
       \<or> (\<exists>vs. Request.Header r (CanonicalMIMEHeaderKey E ''x-sagapay-signature'') =
                  Some ('''' # vs))))
   \<and> (Header_Get E (Request.Header r) ''x-sagapay-signature'' = '''' \<longrightarrow>
        (\<forall>E' b. CanonicalMIMEHeaderKey E' = CanonicalMIMEHeaderKey E \<longrightarrow>
           HandleRequest E' h (r\<lparr>Request.Body := b\<rparr>) =
             (None, Some (errorString ''missing SagaPay signature in headers''))))
   \<and> (Header_Get E (Request.Header r) ''x-sagapay-signature'' = sig \<and> sig \<noteq> ''''
        \<and> io_ReadAll (Request.Body r) = (body, Some err) \<longrightarrow>
        HandleRequest E h r = (None, Some (Errorf_w ''failed to read request body: '' err)))
   \<and> (Header_Get E (Request.Header r) ''x-sagapay-signature'' = sig \<and> sig \<noteq> ''''
        \<and> io_ReadAll (Request.Body r) = (body, None) \<and> \<not> VerifySignature E h body sig \<longrightarrow>
        (\<forall>u. HandleRequest (E\<lparr>json_Unmarshal_WebhookPayload := u\<rparr>) h r =
               (None, Some (errorString ''invalid webhook signature''))))
   \<and> (Header_Get E (Request.Header r) ''x-sagapay-signature'' = sig \<and> sig \<noteq> ''''
        \<and> io_ReadAll (Request.Body r) = (body, None) \<and> VerifySignature E h body sig \<longrightarrow>
        HandleRequest E h r =
          (case json_Unmarshal_WebhookPayload E body of
             Inl err \<Rightarrow> (None, Some (Errorf_w ''failed to parse webhook payload: '' err))
           | Inr payload \<Rightarrow> (Some payload, None)))"
proof (intro conjI)
  show "(Header_Get E (Request.Header r) ''x-sagapay-signature'' = '''') =
      (Request.Header r (CanonicalMIMEHeaderKey E ''x-sagapay-signature'') = None
       \<or> Request.Header r (CanonicalMIMEHeaderKey E ''x-sagapay-signature'') = Some []
       \<or> (\<exists>vs. Request.Header r (CanonicalMIMEHeaderKey E ''x-sagapay-signature'') =
                  Some ('''' # vs)))"
    by (rule Header_Get_empty_iff)
next
  show "Header_Get E (Request.Header r) ''x-sagapay-signature'' = '''' \<longrightarrow>
        (\<forall>E' b. CanonicalMIMEHeaderKey E' = CanonicalMIMEHeaderKey E \<longrightarrow>
           HandleRequest E' h (r\<lparr>Request.Body := b\<rparr>) =
             (None, Some (errorString ''missing SagaPay signature in headers'')))"
    by (simp add: HandleRequest_def Header_Get_def)
next
  show "Header_Get E (Request.Header r) ''x-sagapay-signature'' = sig \<and> sig \<noteq> ''''
        \<and> io_ReadAll (Request.Body r) = (body, Some err) \<longrightarrow>
        HandleRequest E h r = (None, Some (Errorf_w ''failed to read request body: '' err))"
    by (simp add: HandleRequest_def)
next
  show "Header_Get E (Request.Header r) ''x-sagapay-signature'' = sig \<and> sig \<noteq> ''''
        \<and> io_ReadAll (Request.Body r) = (body, None) \<and> \<not> VerifySignature E h body sig \<longrightarrow>
        (\<forall>u. HandleRequest (E\<lparr>json_Unmarshal_WebhookPayload := u\<rparr>) h r =
               (None, Some (errorString ''invalid webhook signature'')))"
    by (simp add: HandleRequest_def Header_Get_def VerifySignature_def)
next
  show "Header_Get E (Request.Header r) ''x-sagapay-signature'' = sig \<and> sig \<noteq> ''''
        \<and> io_ReadAll (Request.Body r) = (body, None) \<and> VerifySignature E h body sig \<longrightarrow>
        HandleRequest E h r =
          (case json_Unmarshal_WebhookPayload E body of
             Inl err \<Rightarrow> (None, Some (Errorf_w ''failed to parse webhook payload: '' err))
           | Inr payload \<Rightarrow> (Some payload, None))"
    by (simp add: HandleRequest_def)
qed

theorem HandleRequest_signature_header_witness:
  "Header_Get mock_env (Request.Header unsigned_request) ''x-sagapay-signature'' = ''''
   \<and> HandleRequest mock_env (NewWebhookHandler ''s2'') unsigned_request =
       (None, Some (errorString ''missing SagaPay signature in headers''))
   \<and> Header_Get mock_env (Request.Header (signed_request ''deadbeef'' (mock_webhook_body, None)))
        ''x-sagapay-signature'' = ''deadbeef''
   \<and> \<not> VerifySignature mock_env (NewWebhookHandler ''s2'') mock_webhook_body ''deadbeef''
   \<and> HandleRequest mock_env (NewWebhookHandler ''s2'')
        (signed_request ''deadbeef'' (mock_webhook_body, None)) =
       (None, Some (errorString ''invalid webhook signature''))
   \<and> VerifySignature mock_env (NewWebhookHandler ''s2'') mock_webhook_body mock_signature
   \<and> HandleRequest mock_env (NewWebhookHandler ''s2'')
        (signed_request mock_signature (mock_webhook_body, None)) = (Some mock_payload, None)
   \<and> HandleRequest mock_env (NewWebhookHandler ''s2'')
        (signed_request mock_signature (''{'', Some (errorString ''unexpected EOF''))) =
       (None, Some (wrapError ''failed to read request body: unexpected EOF''
                      (errorString ''unexpected EOF'')))"
proof -
  let ?h = "NewWebhookHandler ''s2''"
  let ?bad = "signed_request ''deadbeef'' (mock_webhook_body, None)"
  let ?good = "signed_request mock_signature (mock_webhook_body, None)"
  let ?cut = "signed_request mock_signature (''{'', Some (errorString ''unexpected EOF''))"
  have a1: "Header_Get mock_env (Request.Header unsigned_request) ''x-sagapay-signature'' = ''''"
    by (simp add: Header_Get_def unsigned_request_def)
  have a2: "HandleRequest mock_env ?h unsigned_request =
       (None, Some (errorString ''missing SagaPay signature in headers''))"
  proof -
    from HandleRequest_signature_header [where E = mock_env and r = unsigned_request and h = ?h]
      a1
    have "\<forall>E' b. CanonicalMIMEHeaderKey E' = CanonicalMIMEHeaderKey mock_env \<longrightarrow>
           HandleRequest E' ?h (unsigned_request\<lparr>Request.Body := b\<rparr>) =
             (None, Some (errorString ''missing SagaPay signature in headers''))"
      by blast
    then have "HandleRequest mock_env ?h
           (unsigned_request\<lparr>Request.Body := Request.Body unsigned_request\<rparr>) =
             (None, Some (errorString ''missing SagaPay signature in headers''))"
      by blast
    then show ?thesis by simp
  qed
  have b1: "Header_Get mock_env (Request.Header ?bad) ''x-sagapay-signature'' = ''deadbeef''"
    by (rule Header_Get_signed)
  have b2: "io_ReadAll (Request.Body ?bad) = (mock_webhook_body, None)"
    by (simp add: io_ReadAll_def signed_request_def)
  have b3: "\<not> VerifySignature mock_env ?h mock_webhook_body ''deadbeef''"
    by (simp add: VerifySignature_iff mock_env_simps mock_hmac_def NewWebhookHandler_def
        hextable_def)
  have b4: "HandleRequest mock_env ?h ?bad =
       (None, Some (errorString ''invalid webhook signature''))"
  proof -
    from HandleRequest_signature_header
           [where E = mock_env and r = ?bad and sig = "''deadbeef''"
              and body = mock_webhook_body and h = ?h] b1 b2 b3
    have "\<forall>u. HandleRequest (mock_env\<lparr>json_Unmarshal_WebhookPayload := u\<rparr>) ?h ?bad =
               (None, Some (errorString ''invalid webhook signature''))"
      by simp
    then have "HandleRequest (mock_env\<lparr>json_Unmarshal_WebhookPayload :=
                   json_Unmarshal_WebhookPayload mock_env\<rparr>) ?h ?bad =
               (None, Some (errorString ''invalid webhook signature''))"
      by blast
    then show ?thesis by simp
  qed
  have c1: "Header_Get mock_env (Request.Header ?good) ''x-sagapay-signature'' = mock_signature"
    by (rule Header_Get_signed)
  have c2: "io_ReadAll (Request.Body ?good) = (mock_webhook_body, None)"
    by (simp add: io_ReadAll_def signed_request_def)
  have c3: "VerifySignature mock_env ?h mock_webhook_body mock_signature"
    by (simp add: VerifySignature_iff mock_env_simps NewWebhookHandler_def mock_signature_def)
  have c4: "HandleRequest mock_env ?h ?good = (Some mock_payload, None)"
    using HandleRequest_signature_header
           [where E = mock_env and r = ?good and sig = mock_signature
              and body = mock_webhook_body and h = ?h] c1 c2 c3
      mock_signature_nonempty
    by (simp add: mock_env_simps mock_Unmarshal_WebhookPayload_def)
  have d1: "Header_Get mock_env (Request.Header ?cut) ''x-sagapay-signature'' = mock_signature"
    by (rule Header_Get_signed)
  have d2: "io_ReadAll (Request.Body ?cut) = (''{'', Some (errorString ''unexpected EOF''))"
    by (simp add: io_ReadAll_def signed_request_def)
  have d3: "HandleRequest mock_env ?h ?cut =
       (None, Some (wrapError ''failed to read request body: unexpected EOF''
                      (errorString ''unexpected EOF'')))"
    using HandleRequest_signature_header
           [where E = mock_env and r = ?cut and sig = mock_signature and body = "''{''"
              and err = "errorString ''unexpected EOF''" and h = ?h]
      d1 d2 mock_signature_nonempty
    by (simp add: Errorf_w_def)
  from a1 a2 b1 b3 b4 c3 c4 d3 show ?thesis by simp
qed

section \<open>Properties of the constructor and the response helpers\<close>

text \<open>
  C10. \<^verbatim>\<open>NewWebhookHandler\<close> returns a handler for every secret, the empty string
  included, and has no error to return. The handler built from the empty secret accepts
  the hex-encoded keyed hash of the body under the empty key, and a handler accepts a
  signature exactly when it is the hex-encoded keyed hash under the secret it was built
  from. \<^verbatim>\<open>NewClient\<close>, in contrast, refuses an empty secret.
\<close>

theorem NewWebhookHandler_accepts_any_secret:
  "NewWebhookHandler secret = \<lparr>WebhookHandler.apiSecret = secret\<rparr>
   \<and> VerifySignature E (NewWebhookHandler '''') body
        (hex_EncodeToString (hmac_SHA256 E '''' body))
   \<and> VerifySignature E (NewWebhookHandler secret) body sig =
        (sig = hex_EncodeToString (hmac_SHA256 E secret body))
   \<and> NewClient E (cfg\<lparr>APIKey := ''k'', APISecret := ''''\<rparr>) =
        (None, Some (errorString ''API secret is required''))"
  by (simp add: VerifySignature_iff NewWebhookHandler_def NewClient_def)

text \<open>
  C6. \<^verbatim>\<open>SendSuccessResponse\<close> sets the content type, writes status 200 and encodes the
  map with \<^verbatim>\<open>received\<close> true. \<^verbatim>\<open>SendErrorResponse\<close>, for every non-nil error, sets
  the content type, writes status 200 as well and encodes the map with \<^verbatim>\<open>received\<close> false
  and the error's message under \<^verbatim>\<open>error\<close>. Neither makes any other call on the writer.
\<close>

theorem Send_responses_status_200:
  "SendSuccessResponse w =
     w @ [Set_Header ''Content-Type'' ''application/json'', WriteHeader 200,
          Encode [''received'' \<mapsto> JBool True]]
   \<and> SendErrorResponse w (Some e) =
       (w @ [Set_Header ''Content-Type'' ''application/json'', WriteHeader 200,
             Encode [''received'' \<mapsto> JBool False, ''error'' \<mapsto> JString (error_Error e)]],
        None)"
  by (simp add: SendSuccessResponse_def SendErrorResponse_def StatusOK_def)

text \<open>On a nil error the helper panics after it has written the status.\<close>

lemma SendErrorResponse_nil:
  "SendErrorResponse w None =
     (w @ [Set_Header ''Content-Type'' ''application/json'', WriteHeader 200],
      Some ''invalid memory address or nil pointer dereference'')"
  by (simp add: SendErrorResponse_def StatusOK_def)

section \<open>Properties of the API client\<close>

lemma CreateDepositParams_Validate_None:
  "(CreateDepositParams_Validate p = None) =
     (CreateDepositParams.NetworkType p \<noteq> '''' \<and> CreateDepositParams.ContractAddress p \<noteq> ''''
      \<and> CreateDepositParams.Amount p \<noteq> '''' \<and> CreateDepositParams.IPNUrl p \<noteq> '''')"
  by (simp add: CreateDepositParams_Validate_def)

lemma CreateWithdrawalParams_Validate_None:
  "(CreateWithdrawalParams_Validate q = None) =
     (CreateWithdrawalParams.NetworkType q \<noteq> ''''
      \<and> CreateWithdrawalParams.ContractAddress q \<noteq> ''''
      \<and> CreateWithdrawalParams.Address q \<noteq> '''' \<and> CreateWithdrawalParams.Amount q \<noteq> ''''
      \<and> CreateWithdrawalParams.IPNUrl q \<noteq> '''')"
  by (simp add: CreateWithdrawalParams_Validate_def)

text \<open>
  C4. \<^verbatim>\<open>Validate\<close> returns nil exactly when every required field is non-empty: network
  type, contract address, amount and notification URL for a deposit, and the destination
  address besides for a withdrawal. When it returns an error, the error names a required
  field, and \<^verbatim>\<open>CreateDeposit\<close> and \<^verbatim>\<open>CreateWithdrawal\<close> return that error with a nil
  response and hand no request to the HTTP client.
\<close>

theorem Validate_required_fields:
  "(CreateDepositParams_Validate p = None) =
     (CreateDepositParams.NetworkType p \<noteq> '''' \<and> CreateDepositParams.ContractAddress p \<noteq> ''''
      \<and> CreateDepositParams.Amount p \<noteq> '''' \<and> CreateDepositParams.IPNUrl p \<noteq> '''')
   \<and> (CreateWithdrawalParams_Validate q = None) =
     (CreateWithdrawalParams.NetworkType q \<noteq> ''''
      \<and> CreateWithdrawalParams.ContractAddress q \<noteq> ''''
      \<and> CreateWithdrawalParams.Address q \<noteq> '''' \<and> CreateWithdrawalParams.Amount q \<noteq> ''''
      \<and> CreateWithdrawalParams.IPNUrl q \<noteq> '''')
   \<and> (\<forall>err. CreateDepositParams_Validate p = Some err \<longrightarrow>
         (\<exists>field. err = errorString (field @ '' is required''))
         \<and> CreateDeposit E c ctx p sent = ((None, Some err), sent))
   \<and> (\<forall>err. CreateWithdrawalParams_Validate q = Some err \<longrightarrow>
         (\<exists>field. err = errorString (field @ '' is required''))
         \<and> CreateWithdrawal E c ctx q sent = ((None, Some err), sent))"
proof (intro conjI allI impI)
  fix err assume "CreateDepositParams_Validate p = Some err"
  then show "\<exists>field. err = errorString (field @ '' is required'')"
    by (auto simp: CreateDepositParams_Validate_def split: if_splits)
next
  fix err assume "CreateWithdrawalParams_Validate q = Some err"
  then show "\<exists>field. err = errorString (field @ '' is required'')"
    by (auto simp: CreateWithdrawalParams_Validate_def split: if_splits)
qed (simp_all add: CreateDepositParams_Validate_None CreateWithdrawalParams_Validate_None
      CreateDeposit_def CreateWithdrawal_def)

theorem Validate_required_fields_witness:
  "CreateDepositParams_Validate mock_deposit_params = None
   \<and> CreateDepositParams_Validate (mock_deposit_params\<lparr>CreateDepositParams.Amount := ''''\<rparr>) =
       Some (errorString ''amount is required'')
   \<and> CreateDeposit mock_env (mock_client ''k'') Background
        (mock_deposit_params\<lparr>CreateDepositParams.Amount := ''''\<rparr>) [] =
       ((None, Some (errorString ''amount is required'')), [])
   \<and> CreateWithdrawalParams_Validate
        (mock_withdrawal_params\<lparr>CreateWithdrawalParams.Address := ''''\<rparr>) =
       Some (errorString ''address is required'')
   \<and> CreateWithdrawal mock_env (mock_client ''k'') Background
        (mock_withdrawal_params\<lparr>CreateWithdrawalParams.Address := ''''\<rparr>) [] =
       ((None, Some (errorString ''address is required'')), [])"
proof -
  let ?p = "mock_deposit_params\<lparr>CreateDepositParams.Amount := ''''\<rparr>"
  let ?q = "mock_withdrawal_params\<lparr>CreateWithdrawalParams.Address := ''''\<rparr>"
  have a: "CreateDepositParams_Validate mock_deposit_params = None"
    using Validate_required_fields [where p = mock_deposit_params]
    by (simp add: mock_deposit_params_def NetworkTypeBEP20_def)
  have b: "CreateDepositParams_Validate ?p = Some (errorString ''amount is required'')"
    by (simp add: CreateDepositParams_Validate_def mock_deposit_params_def NetworkTypeBEP20_def)
  have c: "CreateWithdrawalParams_Validate ?q = Some (errorString ''address is required'')"
    by (simp add: CreateWithdrawalParams_Validate_def mock_withdrawal_params_def
        NetworkTypeERC20_def)
  from Validate_required_fields
         [where p = ?p and q = ?q and E = mock_env and c = "mock_client ''k''"
            and ctx = Background and sent = "[]"] a b c
  show ?thesis by simp
qed

text \<open>Evaluating the mock environment.\<close>

lemma mock_env_client_simps:
  "url_ResolveReference mock_env = mock_ResolveReference"
  "url_Values_Encode mock_env = mock_Values_Encode"
  "url_String mock_env = mock_url_String"
  "json_Encode mock_env = mock_json_Encode"
  "http_NewRequestWithContext mock_env = mock_NewRequestWithContext"
  "http_Client_Do mock_env = mock_Do"
  "json_Decode_APIError mock_env = mock_Decode_APIError"
  "json_Decode_DepositResponse mock_env = mock_Decode_DepositResponse"
  by (simp_all add: mock_env_def)

lemma canonical_request_keys:
  "canonical_key True ''Content-Type'' = ''Content-Type''"
  "canonical_key True ''Accept'' = ''Accept''"
  "canonical_key True ''x-api-key'' = ''X-Api-Key''"
  "canonical_key True ''x-api-secret'' = ''X-Api-Secret''"
  by code_simp+

lemma mock_url_Parse_default:
  "mock_url_Parse DefaultBaseURL =
     Inr \<lparr>Scheme = ''https'', Host = ''api.sagapay.net'', Path = '''', RawQuery = ''''\<rparr>"
  by (simp add: mock_url_Parse_def DefaultBaseURL_def)

lemma mock_url_Parse_api:
  "mock_url_Parse ''api'' = Inr \<lparr>Scheme = '''', Host = '''', Path = ''api'', RawQuery = ''''\<rparr>"
  by (simp add: mock_url_Parse_def is_segment_def)

lemma mock_url_Parse_create_deposit:
  "mock_url_Parse ''/create-deposit'' =
     Inr \<lparr>Scheme = '''', Host = '''', Path = ''/create-deposit'', RawQuery = ''''\<rparr>"
  by (simp add: mock_url_Parse_def is_segment_def)

text \<open>
  \<^verbatim>\<open>NewClient\<close> returns an error exactly when the key is empty, the secret is empty, or
  \<^verbatim>\<open>url.Parse\<close> returns an error for the base URL in force.
\<close>

lemma NewClient_error_iff:
  "(snd (NewClient E cfg) \<noteq> None) =
     (APIKey cfg = '''' \<or> APISecret cfg = '''' \<or>
      (\<exists>err. url_Parse E (if BaseURL cfg \<noteq> '''' then BaseURL cfg else DefaultBaseURL) = Inl err))"
  by (auto simp: NewClient_def Let_def split: sum.splits)

lemma unat_DefaultTimeout: "unat DefaultTimeout = 30 * 1000000000"
  by (simp add: DefaultTimeout_def Second_def)

text \<open>
  C5, as amended. \<^verbatim>\<open>NewClient\<close> returns an error exactly when the API key is empty, the
  API secret is empty, or \<^verbatim>\<open>url.Parse\<close> returns an error for the base URL, which is the
  default base URL when \<^verbatim>\<open>BaseURL\<close> is empty; it returns a nil client exactly when it
  returns an error. The client it returns holds the parsed base URL and the credentials.
  Without an HTTP client in the configuration its transport has the timeout of the
  configuration when that is positive and the default of 30 seconds otherwise; a
  configured HTTP client is used as it is.
\<close>

theorem NewClient_fails_iff:
  "((snd (NewClient E cfg) \<noteq> None) =
     (APIKey cfg = '''' \<or> APISecret cfg = '''' \<or>
      (\<exists>err. url_Parse E (if BaseURL cfg \<noteq> '''' then BaseURL cfg else DefaultBaseURL) = Inl err)))
   \<and> ((fst (NewClient E cfg) = None) = (snd (NewClient E cfg) \<noteq> None))
   \<and> (\<forall>c. fst (NewClient E cfg) = Some c \<longrightarrow>
         url_Parse E (if BaseURL cfg \<noteq> '''' then BaseURL cfg else DefaultBaseURL) =
           Inr (baseURL c)
         \<and> apiKey c = APIKey cfg \<and> Client.apiSecret c = APISecret cfg
         \<and> (HTTPClient cfg = None \<and> sint (Config.Timeout cfg) \<le> 0 \<longrightarrow>
              client c = \<lparr>Transport = None, Timeout = DefaultTimeout\<rparr>)
         \<and> (HTTPClient cfg = None \<and> 0 < sint (Config.Timeout cfg) \<longrightarrow>
              client c = \<lparr>Transport = None, Timeout = Config.Timeout cfg\<rparr>)
         \<and> (\<forall>hc. HTTPClient cfg = Some hc \<longrightarrow> client c = hc))
   \<and> DefaultBaseURL = ''https://api.sagapay.net''
   \<and> unat DefaultTimeout = 30 * 1000000000"
proof (intro conjI)
  show "(snd (NewClient E cfg) \<noteq> None) =
     (APIKey cfg = '''' \<or> APISecret cfg = '''' \<or>
      (\<exists>err. url_Parse E (if BaseURL cfg \<noteq> '''' then BaseURL cfg else DefaultBaseURL) = Inl err))"
    by (rule NewClient_error_iff)
next
  show "(fst (NewClient E cfg) = None) = (snd (NewClient E cfg) \<noteq> None)"
    by (auto simp: NewClient_def Let_def split: sum.splits)
next
  show "\<forall>c. fst (NewClient E cfg) = Some c \<longrightarrow>
         url_Parse E (if BaseURL cfg \<noteq> '''' then BaseURL cfg else DefaultBaseURL) =
           Inr (baseURL c)
         \<and> apiKey c = APIKey cfg \<and> Client.apiSecret c = APISecret cfg
         \<and> (HTTPClient cfg = None \<and> sint (Config.Timeout cfg) \<le> 0 \<longrightarrow>
              client c = \<lparr>Transport = None, Timeout = DefaultTimeout\<rparr>)
         \<and> (HTTPClient cfg = None \<and> 0 < sint (Config.Timeout cfg) \<longrightarrow>
              client c = \<lparr>Transport = None, Timeout = Config.Timeout cfg\<rparr>)
         \<and> (\<forall>hc. HTTPClient cfg = Some hc \<longrightarrow> client c = hc)"
    by (auto simp: NewClient_def Let_def split: sum.splits if_splits)
next
  show "DefaultBaseURL = ''https://api.sagapay.net''"
    by (simp add: DefaultBaseURL_def)
next
  show "unat DefaultTimeout = 30 * 1000000000"
    by (rule unat_DefaultTimeout)
qed

lemma NewClient_mock_default:
  "NewClient mock_env (mock_config '''' key) =
     (if key = '''' then (None, Some (errorString ''API key is required''))
      else (Some (mock_client key), None))"
  by (simp add: NewClient_def mock_config_def mock_client_def mock_env_simps
      mock_url_Parse_default)

theorem NewClient_fails_iff_witness:
  "fst (NewClient mock_env (mock_config '''' ''k'')) = Some (mock_client ''k'')
   \<and> snd (NewClient mock_env (mock_config '''' ''k'')) = None
   \<and> HTTPClient (mock_config '''' ''k'') = None
   \<and> sint (Config.Timeout (mock_config '''' ''k'')) \<le> 0
   \<and> url_Parse mock_env DefaultBaseURL = Inr (baseURL (mock_client ''k''))
   \<and> client (mock_client ''k'') = \<lparr>Transport = None, Timeout = DefaultTimeout\<rparr>
   \<and> snd (NewClient mock_env (mock_config '''' '''')) \<noteq> None
   \<and> 0 < sint (5 * Second)
   \<and> fst (NewClient mock_env ((mock_config '''' ''k'')\<lparr>Config.Timeout := 5 * Second\<rparr>)) =
       Some ((mock_client ''k'')\<lparr>client := \<lparr>Transport = None, Timeout = 5 * Second\<rparr>\<rparr>)
   \<and> fst (NewClient mock_env ((mock_config '''' ''k'')
          \<lparr>HTTPClient := Some \<lparr>Transport = Some ''custom'', Timeout = 0\<rparr>\<rparr>)) =
       Some ((mock_client ''k'')\<lparr>client := \<lparr>Transport = Some ''custom'', Timeout = 0\<rparr>\<rparr>)
   \<and> client ((mock_client ''k'')\<lparr>client := \<lparr>Transport = None, Timeout = 5 * Second\<rparr>\<rparr>) =
       \<lparr>Transport = None, Timeout = 5 * Second\<rparr>
   \<and> client ((mock_client ''k'')
          \<lparr>client := \<lparr>Transport = Some ''custom'', Timeout = 0\<rparr>\<rparr>) =
       \<lparr>Transport = Some ''custom'', Timeout = 0\<rparr>"
proof -
  let ?t = "(mock_config '''' ''k'')\<lparr>Config.Timeout := 5 * Second\<rparr>"
  let ?hc = "\<lparr>Transport = Some ''custom'', Timeout = 0\<rparr> :: http_Client"
  let ?h = "(mock_config '''' ''k'')\<lparr>HTTPClient := Some ?hc\<rparr>"
  have a: "fst (NewClient mock_env (mock_config '''' ''k'')) = Some (mock_client ''k'')"
    by (simp add: NewClient_mock_default)
  have b: "HTTPClient (mock_config '''' ''k'') = None"
    "sint (Config.Timeout (mock_config '''' ''k'')) \<le> 0"
    "BaseURL (mock_config '''' ''k'') = ''''"
    by (simp_all add: mock_config_def)
  have c: "APIKey (mock_config '''' '''') = ''''"
    by (simp add: mock_config_def)
  from NewClient_fails_iff [where E = mock_env and cfg = "mock_config '''' ''k''"] a b
  have d: "url_Parse mock_env DefaultBaseURL = Inr (baseURL (mock_client ''k''))
      \<and> client (mock_client ''k'') = \<lparr>Transport = None, Timeout = DefaultTimeout\<rparr>
      \<and> snd (NewClient mock_env (mock_config '''' ''k'')) = None"
    by auto
  from NewClient_fails_iff [where E = mock_env and cfg = "mock_config '''' ''''"] c
  have e: "snd (NewClient mock_env (mock_config '''' '''')) \<noteq> None"
    by blast
  have f: "0 < sint (5 * Second)"
    by (simp add: Second_def)
  have g: "fst (NewClient mock_env ?t) =
       Some ((mock_client ''k'')\<lparr>client := \<lparr>Transport = None, Timeout = 5 * Second\<rparr>\<rparr>)"
    using f by (simp add: NewClient_def mock_config_def mock_client_def mock_env_simps
        mock_url_Parse_default [unfolded DefaultBaseURL_def] DefaultBaseURL_def)
  have g': "HTTPClient ?t = None" "Config.Timeout ?t = 5 * Second"
    by (simp_all add: mock_config_def)
  from NewClient_fails_iff [where E = mock_env and cfg = ?t] g g' f
  have g'': "client ((mock_client ''k'')\<lparr>client := \<lparr>Transport = None, Timeout = 5 * Second\<rparr>\<rparr>) =
       \<lparr>Transport = None, Timeout = 5 * Second\<rparr>"
    by simp
  have i: "fst (NewClient mock_env ?h) = Some ((mock_client ''k'')\<lparr>client := ?hc\<rparr>)"
    by (simp add: NewClient_def mock_config_def mock_client_def mock_env_simps
        mock_url_Parse_default [unfolded DefaultBaseURL_def] DefaultBaseURL_def)
  have i': "HTTPClient ?h = Some ?hc"
    by (simp add: mock_config_def)
  from NewClient_fails_iff [where E = mock_env and cfg = ?h] i i'
  have i'': "client ((mock_client ''k'')\<lparr>client := ?hc\<rparr>) = ?hc"
    by simp
  from a b d e f g i g'' i'' show ?thesis by simp
qed

text \<open>
  C5, as stated, fails: with a key, a secret and the base URL \<^verbatim>\<open>api\<close>, which
  \<^verbatim>\<open>url.Parse\<close> accepts as a relative reference, \<^verbatim>\<open>NewClient\<close> returns a client and no
  error, although the base URL has no scheme and so is not absolute.
\<close>

theorem NewClient_relative_base_counterexample:
  "NewClient mock_env (mock_config ''api'' ''k'') =
     (Some \<lparr>client = \<lparr>Transport = None, Timeout = DefaultTimeout\<rparr>,
            baseURL = \<lparr>Scheme = '''', Host = '''', Path = ''api'', RawQuery = ''''\<rparr>,
            apiKey = ''k'', apiSecret = ''s''\<rparr>, None)
   \<and> APIKey (mock_config ''api'' ''k'') = ''k''
   \<and> APISecret (mock_config ''api'' ''k'') = ''s''
   \<and> BaseURL (mock_config ''api'' ''k'') = ''api''
   \<and> \<not> IsAbs \<lparr>Scheme = '''', Host = '''', Path = ''api'', RawQuery = ''''\<rparr>"
  by (simp add: NewClient_def mock_config_def mock_env_simps mock_url_Parse_api IsAbs_def)

text \<open>
  For a status of 400 or more the outcome is the \<^verbatim>\<open>*APIError\<close> decoded from the body, or
  the generic error with the status in decimal when the body does not decode. The
  \<^verbatim>\<open>Code\<close> of the \<^verbatim>\<open>*APIError\<close> is 0 whatever the status was.
\<close>

lemma parse_response_error_status:
  assumes "400 \<le> StatusCode resp"
  shows "parse_response E resp v response =
     (case json_Decode_APIError E (Response.Body resp) of
        Inl err \<Rightarrow>
          (Some (errorString (''HTTP error: '' @ Sprint_d (StatusCode resp)
                   @ '' - failed to parse error response'')), response)
      | Inr d \<Rightarrow>
          (Some (APIErr \<lparr>Error = APIError.Error d, Message = APIError.Message d,
                         Data = APIError.Data d, Code = 0\<rparr>), response))"
  using assms
  by (simp add: parse_response_def Decode_APIError_def zero_APIError_def split: sum.splits)

text \<open>
  Every call either fails before a request is handed to the HTTP client, or hands over
  exactly one request and returns the transport's error or what the response parses to.
\<close>

lemma sendRequestWithQuery_cases:
  "(\<exists>err. sendRequestWithQuery E c ctx method path query body v response sent =
          ((Some err, response), sent))
   \<or> (\<exists>req. sendRequestWithQuery E c ctx method path query body v response sent =
          ((case http_Client_Do E (client c) sent req of
              Inl err \<Rightarrow> (Some err, response)
            | Inr resp \<Rightarrow> parse_response E resp v response),
           sent @ [req]))"
  by (auto simp: sendRequestWithQuery_def Let_def split: sum.splits option.splits)

text \<open>
  C3 at the input where the code departs from it. The mock gateway answers the deposit
  request of a client with a wrong key by status 401 and the structured error
  \<^verbatim>\<open>unauthorized\<close>, \<^verbatim>\<open>bad key\<close>. \<^verbatim>\<open>CreateDeposit\<close> returns the \<^verbatim>\<open>*APIError\<close> with
  that code and message from the body, and with \<^verbatim>\<open>Code\<close> 0 instead of the status 401.
\<close>

theorem CreateDeposit_unauthorized_Code:
  "CreateDeposit mock_env (mock_client ''wrong'') Background mock_deposit_params [] =
     ((None, Some (APIErr \<lparr>Error = ''unauthorized'', Message = ''bad key'', Data = JNull,
                           Code = 0\<rparr>)),
      [mock_deposit_request ''wrong''])
   \<and> mock_Do (client (mock_client ''wrong'')) [] (mock_deposit_request ''wrong'') =
       Inr \<lparr>StatusCode = 401, Body = (mock_unauthorized_body, None)\<rparr>"
  by (simp add: CreateDeposit_def CreateDepositParams_Validate_def mock_deposit_params_def
      NetworkTypeBEP20_def sendRequest_def sendRequestWithQuery_def mock_env_simps
      mock_env_client_simps mock_url_Parse_create_deposit mock_client_def
      mock_ResolveReference_def mock_json_Encode_def mock_NewRequestWithContext_def
      mock_url_String_def set_request_headers_def Header_Set_def canonical_request_keys
      mock_Do_def parse_response_def Decode_APIError_def mock_Decode_APIError_def
      zero_APIError_def finish_def mock_deposit_request_def MethodPost_def
      del: canonical_key.simps)

text \<open>
  The other outcomes on the mock gateway. A withdrawal is answered by status 404 and a body
  that is not JSON: the call returns the generic error with the status in decimal. A deposit
  with the right key is answered by status 200 and decodes to the deposit.
\<close>

lemma Sprint_d_404: "Sprint_d 404 = ''404''"
  by code_simp

lemma mock_url_Parse_create_withdrawal:
  "mock_url_Parse ''/create-withdrawal'' =
     Inr \<lparr>Scheme = '''', Host = '''', Path = ''/create-withdrawal'', RawQuery = ''''\<rparr>"
  by (simp add: mock_url_Parse_def is_segment_def)

lemma CreateWithdrawal_unparseable_error:
  "fst (CreateWithdrawal mock_env (mock_client ''k'') Background mock_withdrawal_params []) =
     (None, Some (errorString ''HTTP error: 404 - failed to parse error response''))"
  by (simp add: CreateWithdrawal_def CreateWithdrawalParams_Validate_def
      mock_withdrawal_params_def NetworkTypeERC20_def sendRequest_def sendRequestWithQuery_def
      mock_env_simps mock_env_client_simps mock_url_Parse_create_withdrawal mock_client_def
      mock_ResolveReference_def mock_json_Encode_def mock_NewRequestWithContext_def
      mock_url_String_def set_request_headers_def Header_Set_def canonical_request_keys
      mock_Do_def parse_response_def Decode_APIError_def mock_Decode_APIError_def
      mock_unauthorized_body_def
      zero_APIError_def finish_def MethodPost_def Sprint_d_404
      del: canonical_key.simps)

lemma CreateDeposit_success:
  "fst (CreateDeposit mock_env (mock_client ''k'') Background mock_deposit_params []) =
     (Some \<lparr>DepositResponse.ID = ''d1'', Address = ''bnb1'', ExpiresAt = Time 1735689600 0 0,
             Amount = ''1.5'', Status = ''PENDING''\<rparr>, None)"
  by (simp add: CreateDeposit_def CreateDepositParams_Validate_def mock_deposit_params_def
      NetworkTypeBEP20_def sendRequest_def sendRequestWithQuery_def mock_env_simps
      mock_env_client_simps mock_url_Parse_create_deposit mock_client_def
      mock_ResolveReference_def mock_json_Encode_def mock_NewRequestWithContext_def
      mock_url_String_def set_request_headers_def Header_Set_def canonical_request_keys
      mock_Do_def parse_response_def mock_Decode_DepositResponse_def
      TransactionStatusPending_def finish_def MethodPost_def
      del: canonical_key.simps)

end
